theory Spec2Isabelle
  imports Main
begin

section \<open>The bridging header of libobs-metal\<close>

text \<open>
  The source is \<^verbatim>\<open>libobs-metal/libobs-metal-Bridging-Header.h\<close>: nine
  \<^verbatim>\<open>#import\<close> directives followed by two definitions,
  \<^verbatim>\<open>static const char *device_name = "Metal";\<close> and
  \<^verbatim>\<open>static const char *preprocessor_name = "_Metal";\<close>.
  A C string literal is modelled by its characters (the terminating NUL is left out).
\<close>

subsection \<open>The two string constants\<close>

definition device_name :: string where
  "device_name = ''Metal''"

definition preprocessor_name :: string where
  "preprocessor_name = ''_Metal''"

subsection \<open>The header as a list of top-level items\<close>

text \<open>
  The global variables of the translation unit, by name. The two variables of the header
  are pointers to constant characters; the pointers themselves are not qualified
  \<^verbatim>\<open>const\<close>, so the model keeps them in a store that an operation could update.
\<close>

type_synonym globals = "string \<rightharpoonup> string"

text \<open>
  An initialiser is a string literal, as in both definitions of the header, or names
  another symbol, which is how a definition would come to depend on an imported header.
\<close>

datatype initialiser = StringLiteral string | Identifier string

text \<open>
  A top-level item is an import (the path between the angle brackets), the definition of
  a \<^verbatim>\<open>static const char *\<close> variable, or the definition of a function (by
  name). The header has items of the first two kinds only.
\<close>

datatype top_level =
    Import string
  | StaticConstCharPtr string initialiser
  | FunctionDef string

definition header :: "top_level list" where
  "header =
    [Import ''util/base.h'',
     Import ''util/cf-parser.h'',
     Import ''util/cf-lexer.h'',
     Import ''graphics/graphics.h'',
     Import ''graphics/device-exports.h'',
     Import ''graphics/vec2.h'',
     Import ''graphics/matrix3.h'',
     Import ''graphics/matrix4.h'',
     Import ''graphics/shader-parser.h'',
     StaticConstCharPtr ''device_name'' (StringLiteral device_name),
     StaticConstCharPtr ''preprocessor_name'' (StringLiteral preprocessor_name)]"

fun imported_headers :: "top_level list \<Rightarrow> string list" where
  "imported_headers [] = []"
| "imported_headers (Import p # ds) = p # imported_headers ds"
| "imported_headers (d # ds) = imported_headers ds"

fun definitions :: "top_level list \<Rightarrow> top_level list" where
  "definitions [] = []"
| "definitions (Import p # ds) = definitions ds"
| "definitions (d # ds) = d # definitions ds"

fun defined_functions :: "top_level list \<Rightarrow> string list" where
  "defined_functions [] = []"
| "defined_functions (FunctionDef f # ds) = f # defined_functions ds"
| "defined_functions (d # ds) = defined_functions ds"

text \<open>
  The spec names an imported header by its path without the extension
  (\<^verbatim>\<open>util/base\<close> for \<^verbatim>\<open>util/base.h\<close>); \<open>header_stem\<close> follows
  that naming.
\<close>

definition header_stem :: "string \<Rightarrow> string" where
  "header_stem p =
    (if drop (length p - 2) p = ''.h'' then take (length p - 2) p else p)"

subsection \<open>What the header defines\<close>

text \<open>
  The value of an initialiser, given the symbols \<open>env\<close> that the imported headers
  provide: a literal is its own value, an identifier is looked up.
\<close>

fun eval_initialiser :: "globals \<Rightarrow> initialiser \<Rightarrow> string option" where
  "eval_initialiser env (StringLiteral s) = Some s"
| "eval_initialiser env (Identifier x) = env x"

text \<open>
  Processing the items in order extends the environment by each variable definition.
  Imports contribute what is already in \<open>env\<close>; a function is not a string value.
\<close>

fun load :: "top_level list \<Rightarrow> globals \<Rightarrow> globals" where
  "load [] env = env"
| "load (StaticConstCharPtr n e # ds) env =
    load ds (case eval_initialiser env e of None \<Rightarrow> env | Some v \<Rightarrow> env(n \<mapsto> v))"
| "load (d # ds) env = load ds env"

subsection \<open>Steps of the header's own code\<close>

text \<open>
  A state of the program is the store of its global variables. One step is a call of a
  function that the header defines. Nothing is assumed about what such a function does:
  it may leave any store behind.
\<close>

inductive step :: "globals \<Rightarrow> globals \<Rightarrow> bool" where
  call: "f \<in> set (defined_functions header) \<Longrightarrow> step s s'"

subsection \<open>The declared types and what they admit\<close>









section \<open>Properties\<close>

subsection \<open>Auxiliary facts\<close>

lemma defined_functions_header: "defined_functions header = []"
  by (simp add: header_def)

lemma load_header:
  "load header env = env(''device_name'' \<mapsto> ''Metal'', ''preprocessor_name'' \<mapsto> ''_Metal'')"
  by (simp add: header_def device_name_def preprocessor_name_def)

lemma no_step: "\<not> step s s'"
  by (auto elim: step.cases simp: defined_functions_header)





subsection \<open>The constants\<close>

text \<open>
  C1: the constant \<open>device_name\<close> is the string "Metal".
\<close>

theorem device_name_is_Metal: "device_name = ''Metal''"
  by (simp add: device_name_def)

text \<open>
  C2: the constant \<open>preprocessor_name\<close> is the string "_Metal".
\<close>

theorem preprocessor_name_is_underscore_Metal: "preprocessor_name = ''_Metal''"
  by (simp add: preprocessor_name_def)

text \<open>
  C7: \<open>preprocessor_name\<close> is \<open>device_name\<close> with the single character "_" put in
  front.
\<close>

theorem preprocessor_name_prefixes_device_name:
  "preprocessor_name = ''_'' @ device_name \<and> preprocessor_name = CHR ''_'' # device_name"
  by (simp add: preprocessor_name_def device_name_def)

text \<open>
  C8: neither constant is the empty string, and the two constants differ.
\<close>

theorem names_nonempty_distinct:
  "device_name \<noteq> [] \<and> preprocessor_name \<noteq> [] \<and> device_name \<noteq> preprocessor_name"
  by (simp add: preprocessor_name_def device_name_def)

subsection \<open>The header as a whole\<close>

text \<open>
  C3: all that the header defines are the two constants. Its items other than imports are
  exactly the definitions of \<open>device_name\<close> and \<open>preprocessor_name\<close>, it defines no
  function, no step of the program exists, and loading it into any environment adds the
  two bindings and nothing else.
\<close>

theorem header_defines_only_two_constants:
  "definitions header =
     [StaticConstCharPtr ''device_name'' (StringLiteral ''Metal''),
      StaticConstCharPtr ''preprocessor_name'' (StringLiteral ''_Metal'')]
   \<and> defined_functions header = []
   \<and> (\<nexists>s s'. step s s')
   \<and> load header env = env(''device_name'' \<mapsto> ''Metal'', ''preprocessor_name'' \<mapsto> ''_Metal'')"
proof -
  have "definitions header =
     [StaticConstCharPtr ''device_name'' (StringLiteral ''Metal''),
      StaticConstCharPtr ''preprocessor_name'' (StringLiteral ''_Metal'')]"
    by (simp add: header_def device_name_def preprocessor_name_def)
  then show ?thesis
    using defined_functions_header no_step load_header by blast
qed




text \<open>
  C5: no operation of the program can fail, because the header defines no operation: its
  list of functions is empty, so there is no call whose result could be an error.
\<close>

theorem no_operation_to_fail:
  "defined_functions header = []"
  by (simp add: header_def)

text \<open>
  C6: the header imports exactly nine headers, in this order: \<open>util/base\<close>,
  \<open>util/cf-parser\<close>, \<open>util/cf-lexer\<close>, \<open>graphics/graphics\<close>,
  \<open>graphics/device-exports\<close>, \<open>graphics/vec2\<close>, \<open>graphics/matrix3\<close>,
  \<open>graphics/matrix4\<close> and \<open>graphics/shader-parser\<close> (each written with the
  extension \<open>.h\<close> in the source). Nothing it defines depends on what they contain:
  the header defines no function, its definitions are the two variables with literal
  initialisers, and their values are the same whatever environment \<open>env\<close> the
  imports provide.
\<close>

theorem header_imports:
  "imported_headers header =
     [''util/base.h'', ''util/cf-parser.h'', ''util/cf-lexer.h'',
      ''graphics/graphics.h'', ''graphics/device-exports.h'', ''graphics/vec2.h'',
      ''graphics/matrix3.h'', ''graphics/matrix4.h'', ''graphics/shader-parser.h'']
   \<and> map header_stem (imported_headers header) =
     [''util/base'', ''util/cf-parser'', ''util/cf-lexer'',
      ''graphics/graphics'', ''graphics/device-exports'', ''graphics/vec2'',
      ''graphics/matrix3'', ''graphics/matrix4'', ''graphics/shader-parser'']
   \<and> length (imported_headers header) = 9
   \<and> defined_functions header = []
   \<and> definitions header =
     [StaticConstCharPtr ''device_name'' (StringLiteral ''Metal''),
      StaticConstCharPtr ''preprocessor_name'' (StringLiteral ''_Metal'')]
   \<and> load header env ''device_name'' = Some ''Metal''
   \<and> load header env ''preprocessor_name'' = Some ''_Metal''"
proof -
  have d: "definitions header =
     [StaticConstCharPtr ''device_name'' (StringLiteral ''Metal''),
      StaticConstCharPtr ''preprocessor_name'' (StringLiteral ''_Metal'')]"
    by (simp add: header_def device_name_def preprocessor_name_def)
  have i: "imported_headers header =
     [''util/base.h'', ''util/cf-parser.h'', ''util/cf-lexer.h'',
      ''graphics/graphics.h'', ''graphics/device-exports.h'', ''graphics/vec2.h'',
      ''graphics/matrix3.h'', ''graphics/matrix4.h'', ''graphics/shader-parser.h'']"
    by (simp add: header_def)
  have m: "map header_stem (imported_headers header) =
     [''util/base'', ''util/cf-parser'', ''util/cf-lexer'',
      ''graphics/graphics'', ''graphics/device-exports'', ''graphics/vec2'',
      ''graphics/matrix3'', ''graphics/matrix4'', ''graphics/shader-parser'']"
    unfolding i by (simp add: header_stem_def)
  have n: "length (imported_headers header) = 9"
    unfolding i by simp
  from i m n d show ?thesis
    using defined_functions_header by (simp add: load_header)
qed

end
